theory Spec2Isabelle
  imports Main "HOL-Library.Word"
begin

section \<open>HypelaneRegistration: the claim workflow of main.py\<close>

text \<open>
  The script reads a list of accounts (private key, optional proxy) and, for each of
  them, asks the claim service whether the address is eligible, whether it is already
  registered, signs a typed message and posts the registration.

  The embedding is a state-passing one. The state is the trace of everything the
  program does that is visible outside it: HTTP requests, calls of the signing library,
  log lines and sleeps. Everything the program does not contain is a field of the
  environment \<open>env\<close>: the replies of the service, the key derivation and the signing of
  the \<open>eth_account\<close> library. An exception is the \<open>Inl\<close> of a sum.
\<close>

subsection \<open>Values: parsed JSON, Python exceptions\<close>

text \<open>
  A reply after \<open>response.json()\<close>, and the dictionaries the program builds. A number
  stands for any JSON number; the program only tests numbers for truth and never
  computes with them. An object is the list of its items, looked up by key.
\<close>

datatype json =
    JNull
  | JBool bool
  | JNum int
  | JStr string
  | JArr "json list"
  | JObj "(string \<times> json) list"

text \<open>
  The exceptions of class \<open>Exception\<close> that the program can meet. \<open>ClientError\<close> is any
  failure of the HTTP round trip, of the proxy or of the decoding of the reply.
\<close>

datatype exn =
    KeyError string
  | IndexError
  | TypeError
  | ValueError string
  | ClientError string

datatype key = K string | I nat

text \<open>
  Python's \<open>obj[k]\<close> on a parsed reply, with the exception it raises. A parsed object
  has string keys only, so an integer subscript is a \<open>KeyError\<close>; the program uses the
  integer 0 only. A string is subscripted by position.
\<close>

fun getitem :: "json \<Rightarrow> key \<Rightarrow> exn + json" where
  "getitem (JObj kvs) (K k) = (case map_of kvs k of None \<Rightarrow> Inl (KeyError k) | Some v \<Rightarrow> Inr v)"
| "getitem (JObj kvs) (I n) = Inl (KeyError ''0'')"
| "getitem (JArr xs) (I n) = (if n < length xs then Inr (xs ! n) else Inl IndexError)"
| "getitem (JArr xs) (K k) = Inl TypeError"
| "getitem (JStr s) (I n) = (if n < length s then Inr (JStr [s ! n]) else Inl IndexError)"
| "getitem (JStr s) (K k) = Inl TypeError"
| "getitem JNull k = Inl TypeError"
| "getitem (JBool b) k = Inl TypeError"
| "getitem (JNum n) k = Inl TypeError"

text \<open>A chain of subscripts, \<open>obj[k1][k2]...\<close>, evaluated from the left.\<close>

fun subscript :: "json \<Rightarrow> key list \<Rightarrow> exn + json" where
  "subscript j [] = Inr j"
| "subscript j (k # ks) = (case getitem j k of Inl e \<Rightarrow> Inl e | Inr v \<Rightarrow> subscript v ks)"

text \<open>The truth value Python's \<open>if\<close> gives a parsed value.\<close>

fun truthy :: "json \<Rightarrow> bool" where
  "truthy JNull = False"
| "truthy (JBool b) = b"
| "truthy (JNum n) = (n \<noteq> 0)"
| "truthy (JStr s) = (s \<noteq> [])"
| "truthy (JArr xs) = (xs \<noteq> [])"
| "truthy (JObj kvs) = (kvs \<noteq> [])"

subsection \<open>Bytes to hexadecimal\<close>

text \<open>
  \<open>.signature.hex()\<close>: the signature is a byte string and \<open>hex\<close> is Python's
  \<open>bytes.hex\<close>, two lowercase digits for each byte and no prefix (the program adds
  \<open>0x\<close> itself in line 144).
\<close>

type_synonym byte = "8 word"

definition hex_digit :: "nat \<Rightarrow> char" where
  "hex_digit n = ''0123456789abcdef'' ! n"

definition hex_byte :: "byte \<Rightarrow> string" where
  "hex_byte b = [hex_digit (unat b div 16), hex_digit (unat b mod 16)]"

definition hex :: "byte list \<Rightarrow> string" where
  "hex bs = concat (map hex_byte bs)"

definition lower_hex :: "string \<Rightarrow> bool" where
  "lower_hex s = list_all (\<lambda>c. c \<in> set ''0123456789abcdef'') s"

subsection \<open>The trace and the environment\<close>

datatype level = INFO | SUCCESS | ERROR

text \<open>
  A log line is the f-string it comes from, before it is rendered: the literal pieces
  and the values put between them.
\<close>

datatype seg =
    Lit string
  | IntV nat
  | StrV string
  | JsonV json
  | ExnV exn

datatype event =
    Get string "(string \<times> string) list" "string option"
  | Post string json "string option"
  | SignMessage json string
  | Log level "seg list"
  | Sleep nat

type_synonym world = "event list"

text \<open>
  What the program calls and does not contain.
  \<^item> \<open>from_key\<close>: \<open>Account().from_key(private_key)\<close>, the address of a key, or the
    exception for a key that is not one.
  \<^item> \<open>sign_message\<close>: \<open>Account.sign_message(encode_typed_data(full_message=m), key)\<close>,
    the signature bytes. It is given the trace so far, which stands for whatever else
    a library may read (a clock, a source of randomness).
  \<^item> \<open>http\<close>: the parsed reply to a request, or the exception of the round trip, for
    the trace so far and the request.
\<close>

record env =
  from_key :: "string \<Rightarrow> exn + string"
  sign_message :: "world \<Rightarrow> json \<Rightarrow> string \<Rightarrow> exn + byte list"
  http :: "world \<Rightarrow> event \<Rightarrow> exn + json"

subsection \<open>Actions: state passing with exceptions\<close>

type_synonym 'a action = "world \<Rightarrow> (exn + 'a) \<times> world"

definition m_bind :: "'a action \<Rightarrow> ('a \<Rightarrow> 'b action) \<Rightarrow> 'b action" where
  "m_bind m k w = (case m w of (Inl e, w') \<Rightarrow> (Inl e, w') | (Inr v, w') \<Rightarrow> k v w')"

definition m_lift :: "exn + 'a \<Rightarrow> 'a action" where
  "m_lift r w = (r, w)"

definition logger :: "level \<Rightarrow> seg list \<Rightarrow> unit action" where
  "logger lv msg w = (Inr (), w @ [Log lv msg])"

text \<open>\<open>await client.get(url, params=..., proxy=...)\<close> followed by \<open>await response.json()\<close>.\<close>

definition client_get :: "env \<Rightarrow> string \<Rightarrow> (string \<times> string) list \<Rightarrow> string option \<Rightarrow> json action" where
  "client_get env url params prx w = (http env w (Get url params prx), w @ [Get url params prx])"

text \<open>\<open>await client.post(url, json=..., proxy=...)\<close> followed by \<open>await response.json()\<close>.\<close>

definition client_post :: "env \<Rightarrow> string \<Rightarrow> json \<Rightarrow> string option \<Rightarrow> json action" where
  "client_post env url body prx w = (http env w (Post url body prx), w @ [Post url body prx])"

subsection \<open>class HyperLaneRegistration\<close>

text \<open>The instance: \<open>account.address\<close> is the field \<open>address\<close>, \<open>id\<close> is \<open>acc_id\<close>.\<close>

record account =
  private_key :: string
  address :: string
  proxy :: "string option"
  acc_id :: nat

text \<open>\<open>__init__\<close> (lines 33-38). The key derivation raises for a malformed key.\<close>

definition init :: "env \<Rightarrow> string \<Rightarrow> string option \<Rightarrow> nat \<Rightarrow> exn + account" where
  "init env private_key_arg proxy_arg number_acc =
     (case from_key env private_key_arg of
        Inl e \<Rightarrow> Inl e
      | Inr addr \<Rightarrow>
          Inr \<lparr> private_key = private_key_arg,
                address = addr,
                proxy = (case proxy_arg of None \<Rightarrow> None | Some p \<Rightarrow> Some (''http://'' @ p)),
                acc_id = number_acc \<rparr>)"

definition type_field :: "string \<Rightarrow> string \<Rightarrow> json" where
  "type_field n t = JObj [(''name'', JStr n), (''type'', JStr t)]"

text \<open>The dictionary \<open>message\<close> of \<open>create_message\<close> (lines 42-89).\<close>

definition full_message :: "string \<Rightarrow> json \<Rightarrow> json" where
  "full_message addr amount =
     JObj [
       (''domain'', JObj [
          (''name'', JStr ''Hyperlane''),
          (''version'', JStr ''1'')]),
       (''message'', JObj [
          (''eligibleAddress'', JStr addr),
          (''chainId'', JStr ''10''),
          (''amount'', amount),
          (''receivingAddress'', JStr addr),
          (''tokenType'', JStr ''HYPER'')]),
       (''primaryType'', JStr ''Message''),
       (''types'', JObj [
          (''EIP712Domain'', JArr [
             type_field ''name'' ''string'',
             type_field ''version'' ''string'']),
          (''Message'', JArr [
             type_field ''eligibleAddress'' ''string'',
             type_field ''chainId'' ''uint256'',
             type_field ''amount'' ''string'',
             type_field ''receivingAddress'' ''string'',
             type_field ''tokenType'' ''string''])])]"

text \<open>\<open>create_message\<close> (lines 40-92): one call of the signing library, then \<open>.hex()\<close>.\<close>

definition create_message :: "env \<Rightarrow> account \<Rightarrow> json \<Rightarrow> string action" where
  "create_message env self amount w =
     (let message = full_message (address self) amount in
      (case sign_message env w message (private_key self) of
         Inl e \<Rightarrow> Inl e
       | Inr signature \<Rightarrow> Inr (hex signature),
       w @ [SignMessage message (private_key self)]))"

definition url_check_eligibility :: string where
  "url_check_eligibility = ''https://claim.hyperlane.foundation/api/check-eligibility''"

definition url_get_registration :: string where
  "url_get_registration = ''https://claim.hyperlane.foundation/api/get-registration-for-address''"

definition url_save_registration :: string where
  "url_save_registration = ''https://claim.hyperlane.foundation/api/save-registration''"

text \<open>The \<open>json=\<close> argument of the POST (lines 137-149).\<close>

definition registration_json :: "account \<Rightarrow> string \<Rightarrow> json \<Rightarrow> json" where
  "registration_json self signature amount =
     JObj [
       (''wallets'', JArr [
          JObj [
            (''eligibleAddress'', JStr (address self)),
            (''chainId'', JNum 10),
            (''eligibleAddressType'', JStr ''ethereum''),
            (''receivingAddress'', JStr (address self)),
            (''signature'', JStr (''0x'' @ signature)),
            (''tokenType'', JStr ''HYPER''),
            (''amount'', amount)]])]"

text \<open>
  The body of \<open>check_eligible\<close> (lines 95-161), one attempt of the workflow. The header
  set of the session has no part in the control flow and is left out.
\<close>

definition check_eligible_body :: "env \<Rightarrow> account \<Rightarrow> unit action" where
  "check_eligible_body env self =
     m_bind (client_get env url_check_eligibility [(''address'', address self)] (proxy self))
       (\<lambda>response_json.
     m_bind (m_lift (subscript response_json [K ''response'', K ''isEligible'']))
       (\<lambda>is_eligible.
     if truthy is_eligible then
       m_bind (m_lift (subscript response_json
                 [K ''response'', K ''eligibilities'', I 0, K ''amount'']))
         (\<lambda>amount.
       m_bind (client_get env url_get_registration [(''address'', address self)] (proxy self))
         (\<lambda>response_json.
       m_bind (m_lift (subscript response_json [K ''message'']))
         (\<lambda>message.
       if message = JStr ''Success'' then
         logger INFO [Lit ''#'', IntV (acc_id self), Lit '' | '', StrV (address self),
                      Lit '' eligible | '', JsonV amount, Lit '' HYPER | already registered'']
       else
         m_bind (logger INFO [Lit ''#'', IntV (acc_id self), Lit '' | '', StrV (address self),
                      Lit '' eligible | '', JsonV amount, Lit '' HYPER | not registered''])
           (\<lambda>_.
         m_bind (create_message env self amount)
           (\<lambda>signature.
         m_bind (client_post env url_save_registration
                   (registration_json self signature amount) (proxy self))
           (\<lambda>response_json.
         m_bind (m_lift (subscript response_json [K ''validationResult'', K ''success'']))
           (\<lambda>success.
         if truthy success then
           logger SUCCESS [Lit ''#'', IntV (acc_id self), Lit '' | '', StrV (address self),
                           Lit '' success registered'']
         else
           logger INFO [Lit ''#'', IntV (acc_id self), Lit '' | '', StrV (address self),
                        Lit '' not registered''])))))))
     else
       logger INFO [Lit ''#'', IntV (acc_id self), Lit '' | '', StrV (address self),
                    Lit '' not eligible'']))"

subsection \<open>The decorator async_error_handler\<close>

text \<open>
  What the wrapped call returns: the value of the function, the \<open>0\<close> of line 24, or
  the \<open>None\<close> of a loop that ends without returning (no iteration at all).
\<close>

datatype 'a ret = RetFunc 'a | RetZero | RetNone

text \<open>
  \<open>wrapper\<close> (lines 17-25). The list is what is left of \<open>range(0, retries)\<close>.
  \<open>except Exception\<close> catches every exception of the model.
\<close>

fun wrapper :: "string \<Rightarrow> nat \<Rightarrow> 'a action \<Rightarrow> nat list \<Rightarrow> 'a ret action" where
  "wrapper error_msg retries func [] w = (Inr RetNone, w)"
| "wrapper error_msg retries func (i # rest) w =
     (case func w of
        (Inr v, w') \<Rightarrow> (Inr (RetFunc v), w')
      | (Inl e, w') \<Rightarrow>
          (let w'' = w' @ [Log ERROR [StrV error_msg, Lit '': '', ExnV e]] in
           if int i = int retries - 1 then (Inr RetZero, w'')
           else wrapper error_msg retries func rest (w'' @ [Sleep 2])))"

definition async_error_handler :: "string \<Rightarrow> nat \<Rightarrow> 'a action \<Rightarrow> 'a ret action" where
  "async_error_handler error_msg retries func = wrapper error_msg retries func [0..<retries]"

text \<open>\<open>check_eligible\<close> as the class has it, decorated (line 94).\<close>

definition check_eligible :: "env \<Rightarrow> account \<Rightarrow> unit ret action" where
  "check_eligible env self = async_error_handler ''check_eligible'' 3 (check_eligible_body env self)"

subsection \<open>start_work, main and the script\<close>

text \<open>
  \<open>start_work\<close> (lines 164-173), inside the semaphore. The constructor of line 166 is
  before the \<open>try\<close>: its exception leaves the function. An exception of
  \<open>check_eligible\<close> is caught and logged in line 173.
\<close>

definition start_work :: "env \<Rightarrow> string \<times> string option \<Rightarrow> nat \<Rightarrow> unit action" where
  "start_work env account_arg id_acc w =
     (case init env (fst account_arg) (snd account_arg) id_acc of
        Inl e \<Rightarrow> (Inl e, w)
      | Inr acc \<Rightarrow>
          (case check_eligible env acc w of
             (Inl e, w') \<Rightarrow>
               logger ERROR [Lit ''ID account:'', IntV id_acc, Lit '' Failed: '', ExnV e] w'
           | (Inr r, w') \<Rightarrow> (Inr (), w')))"

text \<open>
  \<open>main\<close> (lines 176-183). The semaphore has one slot and wakes its waiters in the order
  they arrived, so the tasks run one after the other in the order of the list, numbered
  from 1. \<open>asyncio.gather\<close> without \<open>return_exceptions\<close> raises the first exception of a
  task in \<open>main\<close>, and \<open>asyncio.run\<close> then cancels the tasks that are left.

  The cancellation is not immediate. The task that raised has left the block and given
  its slot back, so the next task is let in and runs up to its first suspension: its
  constructor and the call of \<open>client.get\<close> in line 112, whose reply it then awaits. A
  round trip outlasts the few turns of the event loop before the cancellation, so the
  reply is never read. When the constructor of that task raises as well, the slot goes
  on to the task after it. The exception takes one turn of the event loop to reach
  \<open>gather\<close>, one more to end \<open>main\<close> and one more to stop the loop: a task woken by the
  semaphore runs a turn after the release, so at most three tasks are let in this way.
  When it is the first task that raises, no task waits for the semaphore yet and every
  task takes its first step in that same turn, one after the other, until one of them
  keeps the slot. \<open>turns\<close> is the number of tasks that can still be let in.
\<close>

fun cancelled :: "env \<Rightarrow> nat \<Rightarrow> nat \<Rightarrow> (string \<times> string option) list \<Rightarrow> world \<Rightarrow> world" where
  "cancelled env 0 idx rest w = w"
| "cancelled env (Suc turns) idx [] w = w"
| "cancelled env (Suc turns) idx (account_arg # rest) w =
     (case init env (fst account_arg) (snd account_arg) idx of
        Inl e \<Rightarrow> cancelled env turns (Suc idx) rest w
      | Inr acc \<Rightarrow>
          w @ [Get url_check_eligibility [(''address'', address acc)] (proxy acc)])"

fun run_tasks :: "env \<Rightarrow> nat \<Rightarrow> (string \<times> string option) list \<Rightarrow> unit action" where
  "run_tasks env idx [] w = (Inr (), w)"
| "run_tasks env idx (account_arg # rest) w =
     (case start_work env account_arg idx w of
        (Inl e, w') \<Rightarrow>
          (Inl e, cancelled env (if idx = 1 then length rest else 3) (Suc idx) rest w')
      | (Inr u, w') \<Rightarrow> run_tasks env (Suc idx) rest w')"

definition main :: "env \<Rightarrow> (string \<times> string option) list \<Rightarrow> unit action" where
  "main env accounts = run_tasks env 1 accounts"

text \<open>
  The script (lines 186-202), from the list of accounts the spreadsheet gave. An
  exception of \<open>asyncio.run(main())\<close> ends the script before line 201.
\<close>

definition completion_banner :: event where
  "completion_banner = Log SUCCESS [Lit ''The work completed'']"

definition script :: "env \<Rightarrow> (string \<times> string option) list \<Rightarrow> unit action" where
  "script env accounts =
     m_bind (logger INFO [Lit ''My channel: https://t.me/CryptoMindYep''])
       (\<lambda>_.
     m_bind (logger INFO [Lit ''Total wallets: '', IntV (length accounts), Lit [CHR 0x0A]])
       (\<lambda>_.
     m_bind (main env accounts)
       (\<lambda>_.
     m_bind (\<lambda>w. (Inr (), w @ [completion_banner]))
       (\<lambda>_.
     logger INFO [Lit ''Thx for donat: 0x5AfFeb5fcD283816ab4e926F380F9D0CBBA04d0e'']))))"

subsection \<open>Reading a trace\<close>

text \<open>What an action adds to the trace it starts from.\<close>

definition emitted :: "'a action \<Rightarrow> world \<Rightarrow> event list" where
  "emitted f w = drop (length w) (snd (f w))"

text \<open>An action only appends to the trace, and every event it appends satisfies \<open>P\<close>.\<close>

definition emits :: "(event \<Rightarrow> bool) \<Rightarrow> 'a action \<Rightarrow> bool" where
  "emits P f = (\<forall>w. \<exists>evs. snd (f w) = w @ evs \<and> list_all P evs)"

fun is_sign :: "event \<Rightarrow> bool" where
  "is_sign (SignMessage m k) = True"
| "is_sign ev = False"

fun is_post :: "event \<Rightarrow> bool" where
  "is_post (Post url body prx) = True"
| "is_post ev = False"

fun is_http :: "event \<Rightarrow> bool" where
  "is_http (Get url params prx) = True"
| "is_http (Post url body prx) = True"
| "is_http ev = False"

fun proxy_of :: "event \<Rightarrow> string option" where
  "proxy_of (Get url params prx) = prx"
| "proxy_of (Post url body prx) = prx"
| "proxy_of ev = None"

text \<open>The events of the decorator: the failure line of line 22 and the sleep of line 25.\<close>

fun is_retry_event :: "event \<Rightarrow> bool" where
  "is_retry_event (Log ERROR msg) = True"
| "is_retry_event (Sleep n) = True"
| "is_retry_event ev = False"

definition failure_line :: "exn \<Rightarrow> event" where
  "failure_line e = Log ERROR [StrV ''check_eligible'', Lit '': '', ExnV e]"

text \<open>The three requests of an account, and the lines that report its outcome.\<close>

definition eligibility_query :: "account \<Rightarrow> event" where
  "eligibility_query self =
     Get url_check_eligibility [(''address'', address self)] (proxy self)"

definition registration_query :: "account \<Rightarrow> event" where
  "registration_query self =
     Get url_get_registration [(''address'', address self)] (proxy self)"

definition submission :: "account \<Rightarrow> string \<Rightarrow> json \<Rightarrow> event" where
  "submission self signature amount =
     Post url_save_registration (registration_json self signature amount) (proxy self)"

definition line_not_eligible :: "account \<Rightarrow> event" where
  "line_not_eligible self =
     Log INFO [Lit ''#'', IntV (acc_id self), Lit '' | '', StrV (address self),
               Lit '' not eligible'']"

definition line_already_registered :: "account \<Rightarrow> json \<Rightarrow> event" where
  "line_already_registered self amount =
     Log INFO [Lit ''#'', IntV (acc_id self), Lit '' | '', StrV (address self),
               Lit '' eligible | '', JsonV amount, Lit '' HYPER | already registered'']"

definition line_to_register :: "account \<Rightarrow> json \<Rightarrow> event" where
  "line_to_register self amount =
     Log INFO [Lit ''#'', IntV (acc_id self), Lit '' | '', StrV (address self),
               Lit '' eligible | '', JsonV amount, Lit '' HYPER | not registered'']"

definition line_registered :: "account \<Rightarrow> event" where
  "line_registered self =
     Log SUCCESS [Lit ''#'', IntV (acc_id self), Lit '' | '', StrV (address self),
                  Lit '' success registered'']"

definition line_rejected :: "account \<Rightarrow> event" where
  "line_rejected self =
     Log INFO [Lit ''#'', IntV (acc_id self), Lit '' | '', StrV (address self),
               Lit '' not registered'']"

text \<open>The traces one attempt can leave, for the amount and the signature it met.\<close>

definition attempt_traces :: "account \<Rightarrow> json \<Rightarrow> string \<Rightarrow> event list list" where
  "attempt_traces self amount signature =
     (let q1 = eligibility_query self; q2 = registration_query self;
          l = line_to_register self amount;
          s = SignMessage (full_message (address self) amount) (private_key self);
          p = submission self signature amount
      in [[q1], [q1, line_not_eligible self], [q1, q2],
          [q1, q2, line_already_registered self amount],
          [q1, q2, l, s], [q1, q2, l, s, p],
          [q1, q2, l, s, p, line_registered self],
          [q1, q2, l, s, p, line_rejected self]])"

subsection \<open>The semaphore under interleaving\<close>

text \<open>
  \<open>main\<close> creates one task for each account and all of them share one
  \<open>asyncio.Semaphore\<close>. A task of \<open>start_work\<close> is \<open>Pending\<close> until \<open>async with semaphore\<close>
  (line 165) lets it in, \<open>Holding\<close> inside the block, \<open>InCall\<close> while one of its
  requests (lines 112, 121, 135) is awaited, and \<open>Exited\<close> after the block: \<open>Returned\<close>
  at the end of lines 168-173, \<open>Raised\<close> by the exception of the constructor in line
  166, \<open>Cancelled\<close> when the event loop cancels the task while it waits (for the
  semaphore, where it holds no slot, or for a reply, where the cancellation leaves
  through the block). The counter is the number of free slots: entering the block
  takes one when there is one, leaving the block by any path gives it back. The event
  loop may run the tasks in any order, so a schedule is any list of moves.
\<close>

datatype exit_path = Returned | Raised | Cancelled

datatype phase = Pending | Holding | InCall | Exited exit_path

record gate =
  slots :: nat
  phases :: "phase list"

fun holds :: "phase \<Rightarrow> bool" where
  "holds Holding = True"
| "holds InCall = True"
| "holds ph = False"

definition gate_init :: "nat \<Rightarrow> nat \<Rightarrow> gate" where
  "gate_init bound n = \<lparr> slots = bound, phases = replicate n Pending \<rparr>"

text \<open>
  What the event loop can do with task \<open>i\<close>: let it enter the block, start or finish
  one of its requests, let it leave the block, or cancel it while it waits.
\<close>

datatype move =
    Enter nat
  | Send nat
  | Receive nat
  | Leave nat exit_path
  | CancelWaiting nat
  | CancelCall nat

text \<open>One move, or \<open>None\<close> when the task cannot make it in this state.\<close>

fun fire :: "move \<Rightarrow> gate \<Rightarrow> gate option" where
  "fire (Enter i) g =
     (if i < length (phases g) \<and> phases g ! i = Pending \<and> 0 < slots g
      then Some \<lparr> slots = slots g - 1, phases = (phases g)[i := Holding] \<rparr> else None)"
| "fire (Send i) g =
     (if i < length (phases g) \<and> phases g ! i = Holding
      then Some \<lparr> slots = slots g, phases = (phases g)[i := InCall] \<rparr> else None)"
| "fire (Receive i) g =
     (if i < length (phases g) \<and> phases g ! i = InCall
      then Some \<lparr> slots = slots g, phases = (phases g)[i := Holding] \<rparr> else None)"
| "fire (Leave i p) g =
     (if i < length (phases g) \<and> phases g ! i = Holding
      then Some \<lparr> slots = slots g + 1, phases = (phases g)[i := Exited p] \<rparr> else None)"
| "fire (CancelWaiting i) g =
     (if i < length (phases g) \<and> phases g ! i = Pending
      then Some \<lparr> slots = slots g, phases = (phases g)[i := Exited Cancelled] \<rparr> else None)"
| "fire (CancelCall i) g =
     (if i < length (phases g) \<and> phases g ! i = InCall
      then Some \<lparr> slots = slots g + 1, phases = (phases g)[i := Exited Cancelled] \<rparr>
      else None)"

text \<open>A schedule, move after move.\<close>

fun run :: "move list \<Rightarrow> gate \<Rightarrow> gate option" where
  "run [] g = Some g"
| "run (m # ms) g = (case fire m g of None \<Rightarrow> None | Some g' \<Rightarrow> run ms g')"

subsection \<open>A small service to run the program against\<close>

text \<open>
  Three keys with the addresses \<open>0xA\<close> (not eligible), \<open>0xB\<close> (eligible, registered) and
  \<open>0xC\<close> (eligible, not registered, the registration accepted); any other key is
  malformed.
\<close>

definition demo_from_key :: "string \<Rightarrow> exn + string" where
  "demo_from_key k =
     (if k = ''key-a'' then Inr ''0xA''
      else if k = ''key-b'' then Inr ''0xB''
      else if k = ''key-c'' then Inr ''0xC''
      else Inl (ValueError ''not a private key''))"

definition demo_eligible :: json where
  "demo_eligible = JObj [(''response'', JObj [(''isEligible'', JBool True),
     (''eligibilities'', JArr [JObj [(''amount'', JStr ''1500'')]])])]"

definition demo_not_eligible :: json where
  "demo_not_eligible = JObj [(''response'', JObj [(''isEligible'', JBool False),
     (''eligibilities'', JArr [])])]"

definition demo_accepted :: json where
  "demo_accepted = JObj [(''validationResult'', JObj [(''success'', JBool True)])]"

fun demo_http :: "world \<Rightarrow> event \<Rightarrow> exn + json" where
  "demo_http h (Get url params prx) =
     (if url = url_check_eligibility then
        (if params = [(''address'', ''0xA'')] then Inr demo_not_eligible else Inr demo_eligible)
      else if url = url_get_registration then
        (if params = [(''address'', ''0xB'')] then Inr (JObj [(''message'', JStr ''Success'')])
         else Inr (JObj [(''message'', JStr ''Registration not found'')]))
      else Inl (ClientError ''404''))"
| "demo_http h (Post url body prx) = Inr demo_accepted"
| "demo_http h ev = Inl (ClientError ''not a request'')"

definition demo_env :: env where
  "demo_env = \<lparr> from_key = demo_from_key,
                 sign_message = (\<lambda>h m k. Inr [0xAB, 0x01]),
                 http = demo_http \<rparr>"

text \<open>The same service behind a connection that fails until the program has slept twice.\<close>

definition flaky_env :: env where
  "flaky_env = demo_env \<lparr> http := (\<lambda>h rq.
     if length (filter is_retry_event h) < 4 then Inl (ClientError ''timeout'')
     else demo_http h rq) \<rparr>"

text \<open>The same service with a reply to the submission that has no \<open>validationResult\<close>.\<close>

definition unparsed_env :: env where
  "unparsed_env = demo_env \<lparr> http := (\<lambda>h rq.
     if is_post rq then Inr (JObj [(''error'', JStr ''bad gateway'')]) else demo_http h rq) \<rparr>"

text \<open>A connection that always fails.\<close>

definition down_env :: env where
  "down_env = demo_env \<lparr> http := (\<lambda>h rq. Inl (ClientError ''timeout'')) \<rparr>"

definition acc_a :: account where
  "acc_a = \<lparr> private_key = ''key-a'', address = ''0xA'', proxy = None, acc_id = 1 \<rparr>"

definition acc_b :: account where
  "acc_b = \<lparr> private_key = ''key-b'', address = ''0xB'', proxy = None, acc_id = 2 \<rparr>"

definition acc_c :: account where
  "acc_c = \<lparr> private_key = ''key-c'', address = ''0xC'',
             proxy = Some ''http://10.0.0.1:8080'', acc_id = 3 \<rparr>"

section \<open>Properties\<close>

lemmas run_defs = m_bind_def m_lift_def logger_def client_get_def client_post_def
  create_message_def check_eligible_body_def

lemmas event_defs = eligibility_query_def registration_query_def submission_def
  line_not_eligible_def line_already_registered_def line_to_register_def
  line_registered_def line_rejected_def

lemmas demo_defs = demo_env_def demo_from_key_def demo_eligible_def demo_not_eligible_def
  demo_accepted_def acc_a_def acc_b_def acc_c_def url_check_eligibility_def
  url_get_registration_def url_save_registration_def

lemma upt_0_3: "[0..<3] = [0, 1, 2]"
  by (simp add: upt_rec)

text \<open>An attempt that returns is the only attempt.\<close>

lemma check_eligible_returns:
  "check_eligible_body env self w = (Inr v, w') \<Longrightarrow>
   check_eligible env self w = (Inr (RetFunc v), w')"
  by (simp add: check_eligible_def async_error_handler_def upt_0_3)

text \<open>Every attempt leaves one of the traces of \<open>attempt_traces\<close>.\<close>

lemma body_traces:
  "\<exists>amount bs evs. snd (check_eligible_body env self w) = w @ evs
       \<and> evs \<in> set (attempt_traces self amount (hex bs))"
  unfolding run_defs event_defs attempt_traces_def Let_def
  by (simp del: subscript.simps split: sum.splits prod.splits) blast

text \<open>\<open>hex\<close> writes lowercase hexadecimal digits only.\<close>

lemma hex_digit_lower: "n < 16 \<Longrightarrow> hex_digit n \<in> set ''0123456789abcdef''"
  unfolding hex_digit_def by (rule nth_mem) simp

lemma hex_byte_lower: "c \<in> set (hex_byte b) \<Longrightarrow> c \<in> set ''0123456789abcdef''"
proof -
  assume c: "c \<in> set (hex_byte b)"
  have "unat b div 16 < 16"
    using unsigned_less [of b, where ?'a = nat] by simp
  then have hi: "hex_digit (unat b div 16) \<in> set ''0123456789abcdef''"
    by (rule hex_digit_lower)
  have "unat b mod 16 < 16" by simp
  then have lo: "hex_digit (unat b mod 16) \<in> set ''0123456789abcdef''"
    by (rule hex_digit_lower)
  from c have "c = hex_digit (unat b div 16) \<or> c = hex_digit (unat b mod 16)"
    by (simp add: hex_byte_def)
  with hi lo show ?thesis by blast
qed

lemma lower_hex_hex: "lower_hex (hex bs)"
  unfolding lower_hex_def hex_def list_all_iff
  using hex_byte_lower by fastforce

lemma hex_demo: "hex [0xAB, 0x01] = ''ab01''"
  by (simp add: hex_def hex_byte_def hex_digit_def)

text \<open>What holds of every event an action can append, through the decorator.\<close>

lemma emitted_append: "snd (f w) = w @ evs \<Longrightarrow> emitted f w = evs"
  by (simp add: emitted_def)

lemma emitsD: "emits P f \<Longrightarrow> \<exists>evs. snd (f w) = w @ evs \<and> list_all P evs"
  by (simp add: emits_def)

lemma emits_emitted: "emits P f \<Longrightarrow> list_all P (emitted f w)"
  using emitsD [of P f w] by (auto simp: emitted_def)

lemma emits_body:
  assumes "\<And>amount bs. list_all (list_all P) (attempt_traces self amount (hex bs))"
  shows "emits P (check_eligible_body env self)"
  unfolding emits_def
proof
  fix w
  obtain amount bs evs where
    "snd (check_eligible_body env self w) = w @ evs"
    and "evs \<in> set (attempt_traces self amount (hex bs))"
    using body_traces [of env self w] by blast
  with assms [of amount bs]
  show "\<exists>evs. snd (check_eligible_body env self w) = w @ evs \<and> list_all P evs"
    by (auto simp: list_all_iff)
qed

lemma emits_wrapper:
  assumes f: "emits P func"
      and l: "\<And>e. P (Log ERROR [StrV error_msg, Lit '': '', ExnV e])"
      and s: "P (Sleep 2)"
  shows "\<exists>evs. snd (wrapper error_msg retries func is w) = w @ evs \<and> list_all P evs"
proof (induction "is" arbitrary: w)
  case Nil
  show ?case by simp
next
  case (Cons i rest)
  obtain r w' where fw: "func w = (r, w')" by (cases "func w")
  with emitsD [OF f, of w] obtain evs where evs: "w' = w @ evs" "list_all P evs"
    by auto
  show ?case
  proof (cases r)
    case (Inr v)
    with fw evs show ?thesis by simp
  next
    case (Inl e)
    show ?thesis
    proof (cases "int i = int retries - 1")
      case True
      with Inl fw evs l [of e] show ?thesis by (simp add: Let_def)
    next
      case False
      from Cons.IH [of "w' @ [Log ERROR [StrV error_msg, Lit '': '', ExnV e]] @ [Sleep 2]"]
      obtain evs' where
        "snd (wrapper error_msg retries func rest
                (w' @ [Log ERROR [StrV error_msg, Lit '': '', ExnV e]] @ [Sleep 2])) =
           (w' @ [Log ERROR [StrV error_msg, Lit '': '', ExnV e]] @ [Sleep 2]) @ evs'"
        and "list_all P evs'"
        by blast
      with False Inl fw evs l [of e] s show ?thesis by (simp add: Let_def)
    qed
  qed
qed

lemma emits_check_eligible:
  assumes "emits P (check_eligible_body env self)"
      and "\<And>e. P (failure_line e)"
      and "P (Sleep 2)"
  shows "emits P (check_eligible env self)"
  unfolding emits_def check_eligible_def async_error_handler_def
  using emits_wrapper [OF assms(1), of "''check_eligible''"] assms(2,3)
  by (simp add: failure_line_def)

lemma wrapper_never_raises:
  "\<exists>r w'. wrapper error_msg retries func is w = (Inr r, w')"
proof (induction "is" arbitrary: w)
  case Nil
  show ?case by simp
next
  case (Cons i rest)
  show ?case
  proof (cases "func w")
    case (Pair r w')
    then show ?thesis
      using Cons.IH by (cases r) (auto simp: Let_def)
  qed
qed

lemma check_eligible_never_raises: "\<exists>r w'. check_eligible env self w = (Inr r, w')"
  unfolding check_eligible_def async_error_handler_def by (rule wrapper_never_raises)

text \<open>An attempt signs at most once and posts at most once; three attempts, three times.\<close>

lemma body_at_most_one:
  "\<exists>evs. snd (check_eligible_body env self w) = w @ evs
     \<and> length (filter is_sign evs) \<le> 1 \<and> length (filter is_post evs) \<le> 1"
proof -
  obtain amount bs evs where
    "snd (check_eligible_body env self w) = w @ evs"
    and "evs \<in> set (attempt_traces self amount (hex bs))"
    using body_traces [of env self w] by blast
  then show ?thesis
    by (auto simp: attempt_traces_def Let_def event_defs)
qed

lemma wrapper_at_most:
  assumes f: "\<And>w. \<exists>evs. snd (func w) = w @ evs \<and> length (filter P evs) \<le> 1"
      and l: "\<And>e. \<not> P (Log ERROR [StrV error_msg, Lit '': '', ExnV e])"
      and s: "\<not> P (Sleep 2)"
  shows "\<exists>evs. snd (wrapper error_msg retries func is w) = w @ evs
           \<and> length (filter P evs) \<le> length is"
proof (induction "is" arbitrary: w)
  case Nil
  show ?case by simp
next
  case (Cons i rest)
  obtain r w' where fw: "func w = (r, w')" by (cases "func w")
  with f [of w] obtain evs where evs: "w' = w @ evs" "length (filter P evs) \<le> 1"
    by auto
  show ?case
  proof (cases r)
    case (Inr v)
    with fw evs show ?thesis by simp
  next
    case (Inl e)
    show ?thesis
    proof (cases "int i = int retries - 1")
      case True
      with Inl fw evs l [of e] show ?thesis by (simp add: Let_def)
    next
      case False
      from Cons.IH [of "w' @ [Log ERROR [StrV error_msg, Lit '': '', ExnV e]] @ [Sleep 2]"]
      obtain evs' where
        "snd (wrapper error_msg retries func rest
                (w' @ [Log ERROR [StrV error_msg, Lit '': '', ExnV e]] @ [Sleep 2])) =
           (w' @ [Log ERROR [StrV error_msg, Lit '': '', ExnV e]] @ [Sleep 2]) @ evs'"
        and "length (filter P evs') \<le> length rest"
        by blast
      with False Inl fw evs l [of e] s show ?thesis by (simp add: Let_def)
    qed
  qed
qed

lemma check_eligible_at_most_three:
  "length (filter is_sign (emitted (check_eligible env self) w)) \<le> 3
   \<and> length (filter is_post (emitted (check_eligible env self) w)) \<le> 3"
proof -
  have s: "\<exists>evs. snd (check_eligible_body env self v) = v @ evs
             \<and> length (filter is_sign evs) \<le> 1" for v
    using body_at_most_one [of env self v] by blast
  have p: "\<exists>evs. snd (check_eligible_body env self v) = v @ evs
             \<and> length (filter is_post evs) \<le> 1" for v
    using body_at_most_one [of env self v] by blast
  have "\<exists>evs. snd (wrapper ''check_eligible'' 3 (check_eligible_body env self) [0..<3] w) = w @ evs
           \<and> length (filter is_sign evs) \<le> length [0..<3]"
    by (rule wrapper_at_most [OF s]) simp_all
  moreover
  have "\<exists>evs. snd (wrapper ''check_eligible'' 3 (check_eligible_body env self) [0..<3] w) = w @ evs
           \<and> length (filter is_post evs) \<le> length [0..<3]"
    by (rule wrapper_at_most [OF p]) simp_all
  ultimately show ?thesis
    by (auto simp: emitted_def check_eligible_def async_error_handler_def)
qed

text \<open>The run of the third account of the small service.\<close>



lemma demo_run_c:
  "check_eligible_body demo_env acc_c [] =
     (Inr (), [eligibility_query acc_c, registration_query acc_c,
               line_to_register acc_c (JStr ''1500''),
               SignMessage (full_message (address acc_c) (JStr ''1500'')) (private_key acc_c),
               submission acc_c ''ab01'' (JStr ''1500''),
               line_registered acc_c])"
  by (simp add: run_defs event_defs demo_defs hex_demo)

lemma demo_work_c:
  "start_work demo_env (''key-c'', Some ''10.0.0.1:8080'') 3 [] =
     (Inr (), [eligibility_query acc_c, registration_query acc_c,
               line_to_register acc_c (JStr ''1500''),
               SignMessage (full_message (address acc_c) (JStr ''1500'')) (private_key acc_c),
               submission acc_c ''ab01'' (JStr ''1500''),
               line_registered acc_c])"
proof -
  have "init demo_env ''key-c'' (Some ''10.0.0.1:8080'') 3 = Inr acc_c"
    by (simp add: init_def demo_defs)
  then show ?thesis
    by (simp add: start_work_def check_eligible_returns [OF demo_run_c])
qed

text \<open>An attempt against the service whose submission reply cannot be read.\<close>

lemma unparsed_attempt:
  "check_eligible_body unparsed_env acc_c w =
     (Inl (KeyError ''validationResult''),
      w @ [eligibility_query acc_c, registration_query acc_c,
           line_to_register acc_c (JStr ''1500''),
           SignMessage (full_message (address acc_c) (JStr ''1500'')) (private_key acc_c),
           submission acc_c ''ab01'' (JStr ''1500'')])"
  by (simp add: run_defs event_defs unparsed_env_def demo_defs hex_demo)

subsection \<open>The three ends of an attempt\<close>

text \<open>
  C4. When the reply to the eligibility query has a false \<open>isEligible\<close>, the attempt
  returns after the line "not eligible": the trace has the eligibility query and that
  line and nothing else, so no registration-status query, no signing and no
  submission; the decorated call returns the same without a second attempt.
\<close>

theorem not_eligible_stops:
  assumes "http env w (eligibility_query self) = Inr response_json"
      and "subscript response_json [K ''response'', K ''isEligible''] = Inr is_eligible"
      and "\<not> truthy is_eligible"
  shows "check_eligible_body env self w =
           (Inr (), w @ [eligibility_query self, line_not_eligible self])
       \<and> check_eligible env self w =
           (Inr (RetFunc ()), w @ [eligibility_query self, line_not_eligible self])"
proof -
  have body: "check_eligible_body env self w =
                (Inr (), w @ [eligibility_query self, line_not_eligible self])"
    using assms
    by (simp add: run_defs event_defs del: subscript.simps)
  from body check_eligible_returns [OF body] show ?thesis by simp
qed

theorem not_eligible_stops_witness:
  "http demo_env [] (eligibility_query acc_a) = Inr demo_not_eligible
   \<and> subscript demo_not_eligible [K ''response'', K ''isEligible''] = Inr (JBool False)
   \<and> \<not> truthy (JBool False)
   \<and> check_eligible demo_env acc_a [] =
        (Inr (RetFunc ()), [eligibility_query acc_a, line_not_eligible acc_a])"
proof -
  have h1: "http demo_env [] (eligibility_query acc_a) = Inr demo_not_eligible"
    by (simp add: demo_defs eligibility_query_def)
  have h2: "subscript demo_not_eligible [K ''response'', K ''isEligible''] = Inr (JBool False)"
    by (simp add: demo_defs)
  have h3: "\<not> truthy (JBool False)" by simp
  show ?thesis using not_eligible_stops [OF h1 h2 h3] h1 h2 by simp
qed

text \<open>
  C5. When the eligibility reply has a true \<open>isEligible\<close> and an amount, and the
  \<open>message\<close> of the registration-status reply is \<open>Success\<close>, the attempt returns after
  the line "already registered": the trace has the two queries and that line, so no
  signing and no submission; the decorated call returns the same.
\<close>

theorem already_registered_stops:
  assumes "http env w (eligibility_query self) = Inr response_json"
      and "subscript response_json [K ''response'', K ''isEligible''] = Inr is_eligible"
      and "truthy is_eligible"
      and "subscript response_json
             [K ''response'', K ''eligibilities'', I 0, K ''amount''] = Inr amount"
      and "http env (w @ [eligibility_query self]) (registration_query self) = Inr status"
      and "subscript status [K ''message''] = Inr (JStr ''Success'')"
  shows "check_eligible_body env self w =
           (Inr (), w @ [eligibility_query self, registration_query self,
                         line_already_registered self amount])
       \<and> check_eligible env self w =
           (Inr (RetFunc ()), w @ [eligibility_query self, registration_query self,
                                   line_already_registered self amount])"
proof -
  have body: "check_eligible_body env self w =
           (Inr (), w @ [eligibility_query self, registration_query self,
                         line_already_registered self amount])"
    using assms
    by (simp add: run_defs event_defs del: subscript.simps)
  from body check_eligible_returns [OF body] show ?thesis by simp
qed

theorem already_registered_stops_witness:
  "http demo_env [] (eligibility_query acc_b) = Inr demo_eligible
   \<and> subscript demo_eligible [K ''response'', K ''isEligible''] = Inr (JBool True)
   \<and> truthy (JBool True)
   \<and> subscript demo_eligible
        [K ''response'', K ''eligibilities'', I 0, K ''amount''] = Inr (JStr ''1500'')
   \<and> http demo_env ([] @ [eligibility_query acc_b]) (registration_query acc_b) =
        Inr (JObj [(''message'', JStr ''Success'')])
   \<and> subscript (JObj [(''message'', JStr ''Success'')]) [K ''message''] = Inr (JStr ''Success'')
   \<and> check_eligible demo_env acc_b [] =
        (Inr (RetFunc ()), [eligibility_query acc_b, registration_query acc_b,
                            line_already_registered acc_b (JStr ''1500'')])"
proof -
  have h1: "http demo_env [] (eligibility_query acc_b) = Inr demo_eligible"
    by (simp add: demo_defs eligibility_query_def)
  have h2: "subscript demo_eligible [K ''response'', K ''isEligible''] = Inr (JBool True)"
    by (simp add: demo_defs)
  have h3: "truthy (JBool True)" by simp
  have h4: "subscript demo_eligible
              [K ''response'', K ''eligibilities'', I 0, K ''amount''] = Inr (JStr ''1500'')"
    by (simp add: demo_defs)
  have h5: "http demo_env ([] @ [eligibility_query acc_b]) (registration_query acc_b) =
              Inr (JObj [(''message'', JStr ''Success'')])"
    by (simp add: demo_defs registration_query_def)
  have h6: "subscript (JObj [(''message'', JStr ''Success'')]) [K ''message''] =
              Inr (JStr ''Success'')"
    by simp
  show ?thesis using already_registered_stops [OF h1 h2 h3 h4 h5 h6] h1 h2 h4 h5 by simp
qed

text \<open>
  C1. For the whole decorated workflow the count is not always one: on a service
  whose reply to the submission has no \<open>validationResult\<close>, every eligibility reply has
  a true \<open>isEligible\<close> and every registration-status reply a message other than
  \<open>Success\<close>, yet line 154 raises, the decorator repeats the attempt, and the workflow
  signs three times and submits three times.
\<close>

theorem registers_once_counterexample:
  "http unparsed_env [] (eligibility_query acc_c) = Inr demo_eligible
   \<and> subscript demo_eligible [K ''response'', K ''isEligible''] = Inr (JBool True)
   \<and> http unparsed_env [eligibility_query acc_c] (registration_query acc_c) =
        Inr (JObj [(''message'', JStr ''Registration not found'')])
   \<and> check_eligible unparsed_env acc_c [] =
        (Inr RetZero,
         [eligibility_query acc_c, registration_query acc_c,
          line_to_register acc_c (JStr ''1500''),
          SignMessage (full_message (address acc_c) (JStr ''1500'')) (private_key acc_c),
          submission acc_c ''ab01'' (JStr ''1500''),
          failure_line (KeyError ''validationResult''), Sleep 2,
          eligibility_query acc_c, registration_query acc_c,
          line_to_register acc_c (JStr ''1500''),
          SignMessage (full_message (address acc_c) (JStr ''1500'')) (private_key acc_c),
          submission acc_c ''ab01'' (JStr ''1500''),
          failure_line (KeyError ''validationResult''), Sleep 2,
          eligibility_query acc_c, registration_query acc_c,
          line_to_register acc_c (JStr ''1500''),
          SignMessage (full_message (address acc_c) (JStr ''1500'')) (private_key acc_c),
          submission acc_c ''ab01'' (JStr ''1500''),
          failure_line (KeyError ''validationResult'')])
   \<and> length (filter is_sign (emitted (check_eligible unparsed_env acc_c) [])) = 3
   \<and> length (filter is_post (emitted (check_eligible unparsed_env acc_c) [])) = 3"
proof -
  have h1: "http unparsed_env [] (eligibility_query acc_c) = Inr demo_eligible"
    by (simp add: unparsed_env_def demo_defs eligibility_query_def)
  have h2: "subscript demo_eligible [K ''response'', K ''isEligible''] = Inr (JBool True)"
    by (simp add: demo_defs)
  have h3: "http unparsed_env [eligibility_query acc_c] (registration_query acc_c) =
        Inr (JObj [(''message'', JStr ''Registration not found'')])"
    by (simp add: unparsed_env_def demo_defs registration_query_def)
  have run: "check_eligible unparsed_env acc_c [] =
        (Inr RetZero,
         [eligibility_query acc_c, registration_query acc_c,
          line_to_register acc_c (JStr ''1500''),
          SignMessage (full_message (address acc_c) (JStr ''1500'')) (private_key acc_c),
          submission acc_c ''ab01'' (JStr ''1500''),
          failure_line (KeyError ''validationResult''), Sleep 2,
          eligibility_query acc_c, registration_query acc_c,
          line_to_register acc_c (JStr ''1500''),
          SignMessage (full_message (address acc_c) (JStr ''1500'')) (private_key acc_c),
          submission acc_c ''ab01'' (JStr ''1500''),
          failure_line (KeyError ''validationResult''), Sleep 2,
          eligibility_query acc_c, registration_query acc_c,
          line_to_register acc_c (JStr ''1500''),
          SignMessage (full_message (address acc_c) (JStr ''1500'')) (private_key acc_c),
          submission acc_c ''ab01'' (JStr ''1500''),
          failure_line (KeyError ''validationResult'')])"
    by (simp add: check_eligible_def async_error_handler_def upt_0_3 unparsed_attempt
          failure_line_def Let_def)
  have "length (filter is_sign (emitted (check_eligible unparsed_env acc_c) [])) = 3"
    and "length (filter is_post (emitted (check_eligible unparsed_env acc_c) [])) = 3"
    by (simp_all add: emitted_def run event_defs failure_line_def)
  with h1 h2 h3 run show ?thesis by simp
qed

text \<open>
  C1, amended. In an attempt where the eligibility reply has a true \<open>isEligible\<close> and
  the amount \<open>amount\<close>, and the registration-status reply has a \<open>message\<close> other than
  \<open>Success\<close>, the signing library is called exactly once; when it returns a signature,
  exactly one POST is made in the attempt, the submission, whose claim carries that
  \<open>amount\<close>. When the attempt returns, the decorated workflow is that attempt alone.
  Whatever the attempts do, the decorated workflow signs at least once and at most
  three times, and submits at most three times.
\<close>

theorem registers_once:
  assumes "http env w (eligibility_query self) = Inr response_json"
      and "subscript response_json [K ''response'', K ''isEligible''] = Inr is_eligible"
      and "truthy is_eligible"
      and "subscript response_json
             [K ''response'', K ''eligibilities'', I 0, K ''amount''] = Inr amount"
      and "http env (w @ [eligibility_query self]) (registration_query self) = Inr status"
      and "subscript status [K ''message''] = Inr message"
      and "message \<noteq> JStr ''Success''"
  shows "filter is_sign (emitted (check_eligible_body env self) w) =
           [SignMessage (full_message (address self) amount) (private_key self)]
       \<and> (sign_message env
             (w @ [eligibility_query self, registration_query self, line_to_register self amount])
             (full_message (address self) amount) (private_key self) = Inr signature \<longrightarrow>
            filter is_post (emitted (check_eligible_body env self) w) =
              [Post url_save_registration (registration_json self (hex signature) amount)
                 (proxy self)]
            \<and> subscript (registration_json self (hex signature) amount)
                 [K ''wallets'', I 0, K ''amount''] = Inr amount)
       \<and> (fst (check_eligible_body env self w) = Inr () \<longrightarrow>
            emitted (check_eligible env self) w = emitted (check_eligible_body env self) w)
       \<and> 1 \<le> length (filter is_sign (emitted (check_eligible env self) w))
       \<and> length (filter is_sign (emitted (check_eligible env self) w)) \<le> 3
       \<and> length (filter is_post (emitted (check_eligible env self) w)) \<le> 3"
proof -
  let ?s = "SignMessage (full_message (address self) amount) (private_key self)"
  let ?pre = "[eligibility_query self, registration_query self, line_to_register self amount, ?s]"
  have whole: "emitted (check_eligible env self) w = emitted (check_eligible_body env self) w"
    if "fst (check_eligible_body env self w) = Inr ()"
  proof -
    from that have "check_eligible_body env self w = (Inr (), snd (check_eligible_body env self w))"
      by (cases "check_eligible_body env self w") simp
    from check_eligible_returns [OF this] show ?thesis
      by (simp add: emitted_def)
  qed
  have "\<exists>tl. snd (check_eligible_body env self w) = w @ ?pre @ tl \<and> filter is_sign tl = []"
    using assms unfolding run_defs event_defs Let_def
    by (simp del: subscript.simps split: sum.splits prod.splits)
  then obtain tl where tl: "snd (check_eligible_body env self w) = w @ ?pre @ tl"
    "filter is_sign tl = []"
    by blast
  then have one: "filter is_sign (emitted (check_eligible_body env self) w) = [?s]"
    by (simp add: emitted_def event_defs)
  have post: "filter is_post (emitted (check_eligible_body env self) w) =
              [Post url_save_registration (registration_json self (hex signature) amount)
                 (proxy self)]
            \<and> subscript (registration_json self (hex signature) amount)
                 [K ''wallets'', I 0, K ''amount''] = Inr amount"
    if sg: "sign_message env
             (w @ [eligibility_query self, registration_query self, line_to_register self amount])
             (full_message (address self) amount) (private_key self) = Inr signature"
  proof -
    have "\<exists>tl. snd (check_eligible_body env self w) =
          w @ ?pre @ [Post url_save_registration (registration_json self (hex signature) amount)
                        (proxy self)] @ tl
          \<and> filter is_post tl = []"
      using assms sg unfolding run_defs event_defs Let_def
      by (simp del: subscript.simps split: sum.splits prod.splits)
    then obtain tl' where
      "snd (check_eligible_body env self w) =
          w @ ?pre @ [Post url_save_registration (registration_json self (hex signature) amount)
                        (proxy self)] @ tl'"
      "filter is_post tl' = []"
      by blast
    then show ?thesis
      by (simp add: emitted_def event_defs registration_json_def)
  qed
  have first: "1 \<le> length (filter is_sign (emitted (check_eligible env self) w))"
  proof -
    obtain r w1 where b: "check_eligible_body env self w = (r, w1)"
      by (cases "check_eligible_body env self w")
    with tl have w1: "w1 = w @ ?pre @ tl" by simp
    have "\<exists>evs. snd (check_eligible env self w) = w1 @ evs"
    proof (cases r)
      case (Inr v)
      with b check_eligible_returns [of env self w v w1] show ?thesis by simp
    next
      case (Inl e)
      have "emits (\<lambda>ev. True) (check_eligible_body env self)"
        by (rule emits_body) (simp add: list_all_iff)
      from emits_wrapper [OF this, of "''check_eligible''" 3 "[1, 2]"
          "w1 @ [Log ERROR [StrV ''check_eligible'', Lit '': '', ExnV e], Sleep 2]"]
      obtain evs where
        "snd (wrapper ''check_eligible'' 3 (check_eligible_body env self) [1, 2]
               (w1 @ [Log ERROR [StrV ''check_eligible'', Lit '': '', ExnV e], Sleep 2])) =
         (w1 @ [Log ERROR [StrV ''check_eligible'', Lit '': '', ExnV e], Sleep 2]) @ evs"
        by auto
      with Inl b show ?thesis
        by (simp add: check_eligible_def async_error_handler_def upt_0_3 Let_def)
    qed
    then obtain evs where "snd (check_eligible env self w) = w1 @ evs" by blast
    with w1 show ?thesis
      by (simp add: emitted_def event_defs)
  qed
  from one post whole first check_eligible_at_most_three [of env self w]
  show ?thesis by blast
qed

theorem registers_once_witness:
  "http demo_env [] (eligibility_query acc_c) = Inr demo_eligible
   \<and> subscript demo_eligible [K ''response'', K ''isEligible''] = Inr (JBool True)
   \<and> truthy (JBool True)
   \<and> subscript demo_eligible
        [K ''response'', K ''eligibilities'', I 0, K ''amount''] = Inr (JStr ''1500'')
   \<and> http demo_env ([] @ [eligibility_query acc_c]) (registration_query acc_c) =
        Inr (JObj [(''message'', JStr ''Registration not found'')])
   \<and> subscript (JObj [(''message'', JStr ''Registration not found'')]) [K ''message''] =
        Inr (JStr ''Registration not found'')
   \<and> JStr ''Registration not found'' \<noteq> JStr ''Success''
   \<and> sign_message demo_env
        ([] @ [eligibility_query acc_c, registration_query acc_c,
               line_to_register acc_c (JStr ''1500'')])
        (full_message (address acc_c) (JStr ''1500'')) (private_key acc_c) = Inr [0xAB, 0x01]
   \<and> fst (check_eligible_body demo_env acc_c []) = Inr ()
   \<and> filter is_sign (emitted (check_eligible_body demo_env acc_c) []) =
        [SignMessage (full_message (address acc_c) (JStr ''1500'')) (private_key acc_c)]
   \<and> filter is_post (emitted (check_eligible_body demo_env acc_c) []) =
        [Post url_save_registration (registration_json acc_c ''ab01'' (JStr ''1500''))
           (proxy acc_c)]
   \<and> emitted (check_eligible demo_env acc_c) [] =
        emitted (check_eligible_body demo_env acc_c) []"
proof -
  have h1: "http demo_env [] (eligibility_query acc_c) = Inr demo_eligible"
    by (simp add: demo_defs eligibility_query_def)
  have h2: "subscript demo_eligible [K ''response'', K ''isEligible''] = Inr (JBool True)"
    by (simp add: demo_defs)
  have h3: "truthy (JBool True)" by simp
  have h4: "subscript demo_eligible
              [K ''response'', K ''eligibilities'', I 0, K ''amount''] = Inr (JStr ''1500'')"
    by (simp add: demo_defs)
  have h5: "http demo_env ([] @ [eligibility_query acc_c]) (registration_query acc_c) =
              Inr (JObj [(''message'', JStr ''Registration not found'')])"
    by (simp add: demo_defs registration_query_def)
  have h6: "subscript (JObj [(''message'', JStr ''Registration not found'')]) [K ''message''] =
              Inr (JStr ''Registration not found'')"
    by simp
  have h7: "JStr ''Registration not found'' \<noteq> JStr ''Success''" by simp
  have h8: "sign_message demo_env
        ([] @ [eligibility_query acc_c, registration_query acc_c,
               line_to_register acc_c (JStr ''1500'')])
        (full_message (address acc_c) (JStr ''1500'')) (private_key acc_c) = Inr [0xAB, 0x01]"
    by (simp add: demo_env_def)
  have h9: "fst (check_eligible_body demo_env acc_c []) = Inr ()"
    by (simp add: demo_run_c)
  show ?thesis
    using registers_once [OF h1 h2 h3 h4 h5 h6 h7, of "[0xAB, 0x01]"] h1 h2 h4 h5 h8 h9
    by (simp add: hex_demo)
qed

text \<open>
  C7. Every POST of an attempt is the submission: to \<open>save-registration\<close>, with a body
  that wraps one claim in a list under \<open>wallets\<close>. The claim has the number 10 as
  chainId, \<open>ethereum\<close> as eligibleAddressType, \<open>HYPER\<close> as tokenType and, as signature,
  \<open>0x\<close> followed by lowercase hexadecimal digits. When the reply has a
  \<open>validationResult.success\<close>, the attempt ends with the line "success registered" if
  that value is true and with the line "not registered" if it is not.
\<close>

theorem submission_format:
  "list_all (\<lambda>ev. is_post ev \<longrightarrow> (\<exists>bs amount. ev = submission self (hex bs) amount))
     (emitted (check_eligible_body env self) w)
   \<and> (\<exists>claim h. registration_json self (hex bs) amount = JObj [(''wallets'', JArr [claim])]
         \<and> subscript claim [K ''chainId''] = Inr (JNum 10)
         \<and> subscript claim [K ''eligibleAddressType''] = Inr (JStr ''ethereum'')
         \<and> subscript claim [K ''tokenType''] = Inr (JStr ''HYPER'')
         \<and> subscript claim [K ''signature''] = Inr (JStr (''0x'' @ h)) \<and> lower_hex h)
   \<and> (http env w (eligibility_query self) = Inr response_json
       \<and> subscript response_json [K ''response'', K ''isEligible''] = Inr is_eligible
       \<and> truthy is_eligible
       \<and> subscript response_json
            [K ''response'', K ''eligibilities'', I 0, K ''amount''] = Inr amount
       \<and> http env (w @ [eligibility_query self]) (registration_query self) = Inr status
       \<and> subscript status [K ''message''] = Inr message
       \<and> message \<noteq> JStr ''Success''
       \<and> sign_message env
            (w @ [eligibility_query self, registration_query self, line_to_register self amount])
            (full_message (address self) amount) (private_key self) = Inr bs
       \<and> http env
            (w @ [eligibility_query self, registration_query self, line_to_register self amount,
                  SignMessage (full_message (address self) amount) (private_key self)])
            (submission self (hex bs) amount) = Inr reply
       \<and> subscript reply [K ''validationResult'', K ''success''] = Inr success
       \<longrightarrow> check_eligible_body env self w =
             (Inr (),
              w @ [eligibility_query self, registration_query self, line_to_register self amount,
                   SignMessage (full_message (address self) amount) (private_key self),
                   submission self (hex bs) amount,
                   if truthy success then line_registered self else line_rejected self]))"
proof (intro conjI)
  have "emits (\<lambda>ev. is_post ev \<longrightarrow> (\<exists>bs amount. ev = submission self (hex bs) amount))
          (check_eligible_body env self)"
    by (rule emits_body) (auto simp: attempt_traces_def Let_def event_defs)
  then show "list_all (\<lambda>ev. is_post ev \<longrightarrow> (\<exists>bs amount. ev = submission self (hex bs) amount))
     (emitted (check_eligible_body env self) w)"
    by (rule emits_emitted)
next
  show "\<exists>claim h. registration_json self (hex bs) amount = JObj [(''wallets'', JArr [claim])]
         \<and> subscript claim [K ''chainId''] = Inr (JNum 10)
         \<and> subscript claim [K ''eligibleAddressType''] = Inr (JStr ''ethereum'')
         \<and> subscript claim [K ''tokenType''] = Inr (JStr ''HYPER'')
         \<and> subscript claim [K ''signature''] = Inr (JStr (''0x'' @ h)) \<and> lower_hex h"
    using lower_hex_hex [of bs] by (simp add: registration_json_def)
next
  show "http env w (eligibility_query self) = Inr response_json
       \<and> subscript response_json [K ''response'', K ''isEligible''] = Inr is_eligible
       \<and> truthy is_eligible
       \<and> subscript response_json
            [K ''response'', K ''eligibilities'', I 0, K ''amount''] = Inr amount
       \<and> http env (w @ [eligibility_query self]) (registration_query self) = Inr status
       \<and> subscript status [K ''message''] = Inr message
       \<and> message \<noteq> JStr ''Success''
       \<and> sign_message env
            (w @ [eligibility_query self, registration_query self, line_to_register self amount])
            (full_message (address self) amount) (private_key self) = Inr bs
       \<and> http env
            (w @ [eligibility_query self, registration_query self, line_to_register self amount,
                  SignMessage (full_message (address self) amount) (private_key self)])
            (submission self (hex bs) amount) = Inr reply
       \<and> subscript reply [K ''validationResult'', K ''success''] = Inr success
       \<longrightarrow> check_eligible_body env self w =
             (Inr (),
              w @ [eligibility_query self, registration_query self, line_to_register self amount,
                   SignMessage (full_message (address self) amount) (private_key self),
                   submission self (hex bs) amount,
                   if truthy success then line_registered self else line_rejected self])"
    unfolding run_defs event_defs
    by (simp del: subscript.simps)
qed

theorem submission_format_witness:
  "is_post (submission acc_c (hex [0xAB, 0x01]) (JStr ''1500''))
   \<and> submission acc_c (hex [0xAB, 0x01]) (JStr ''1500'')
        \<in> set (emitted (check_eligible_body demo_env acc_c) [])
   \<and> subscript (registration_json acc_c (hex [0xAB, 0x01]) (JStr ''1500''))
        [K ''wallets'', I 0, K ''signature''] = Inr (JStr ''0xab01'')
   \<and> http demo_env [] (eligibility_query acc_c) = Inr demo_eligible
   \<and> subscript demo_eligible [K ''response'', K ''isEligible''] = Inr (JBool True)
   \<and> truthy (JBool True)
   \<and> subscript demo_eligible
        [K ''response'', K ''eligibilities'', I 0, K ''amount''] = Inr (JStr ''1500'')
   \<and> http demo_env ([] @ [eligibility_query acc_c]) (registration_query acc_c) =
        Inr (JObj [(''message'', JStr ''Registration not found'')])
   \<and> subscript (JObj [(''message'', JStr ''Registration not found'')]) [K ''message''] =
        Inr (JStr ''Registration not found'')
   \<and> JStr ''Registration not found'' \<noteq> JStr ''Success''
   \<and> sign_message demo_env
        ([] @ [eligibility_query acc_c, registration_query acc_c,
               line_to_register acc_c (JStr ''1500'')])
        (full_message (address acc_c) (JStr ''1500'')) (private_key acc_c) = Inr [0xAB, 0x01]
   \<and> http demo_env
        ([] @ [eligibility_query acc_c, registration_query acc_c,
               line_to_register acc_c (JStr ''1500''),
               SignMessage (full_message (address acc_c) (JStr ''1500'')) (private_key acc_c)])
        (submission acc_c (hex [0xAB, 0x01]) (JStr ''1500'')) = Inr demo_accepted
   \<and> subscript demo_accepted [K ''validationResult'', K ''success''] = Inr (JBool True)
   \<and> check_eligible_body demo_env acc_c [] =
        (Inr (), [] @ [eligibility_query acc_c, registration_query acc_c,
                  line_to_register acc_c (JStr ''1500''),
                  SignMessage (full_message (address acc_c) (JStr ''1500'')) (private_key acc_c),
                  submission acc_c (hex [0xAB, 0x01]) (JStr ''1500''),
                  if truthy (JBool True) then line_registered acc_c else line_rejected acc_c])"
proof -
  have p: "is_post (submission acc_c (hex [0xAB, 0x01]) (JStr ''1500''))"
    by (simp add: submission_def)
  have m: "submission acc_c (hex [0xAB, 0x01]) (JStr ''1500'')
        \<in> set (emitted (check_eligible_body demo_env acc_c) [])"
    by (simp add: emitted_def demo_run_c hex_demo)
  have s: "subscript (registration_json acc_c (hex [0xAB, 0x01]) (JStr ''1500''))
        [K ''wallets'', I 0, K ''signature''] = Inr (JStr ''0xab01'')"
    by (simp add: registration_json_def hex_demo)
  have h1: "http demo_env [] (eligibility_query acc_c) = Inr demo_eligible"
    by (simp add: demo_defs eligibility_query_def)
  have h2: "subscript demo_eligible [K ''response'', K ''isEligible''] = Inr (JBool True)"
    by (simp add: demo_defs)
  have h3: "truthy (JBool True)" by simp
  have h4: "subscript demo_eligible
              [K ''response'', K ''eligibilities'', I 0, K ''amount''] = Inr (JStr ''1500'')"
    by (simp add: demo_defs)
  have h5: "http demo_env ([] @ [eligibility_query acc_c]) (registration_query acc_c) =
              Inr (JObj [(''message'', JStr ''Registration not found'')])"
    by (simp add: demo_defs registration_query_def)
  have h6: "subscript (JObj [(''message'', JStr ''Registration not found'')]) [K ''message''] =
              Inr (JStr ''Registration not found'')"
    by simp
  have h7: "JStr ''Registration not found'' \<noteq> JStr ''Success''" by simp
  have h8: "sign_message demo_env
        ([] @ [eligibility_query acc_c, registration_query acc_c,
               line_to_register acc_c (JStr ''1500'')])
        (full_message (address acc_c) (JStr ''1500'')) (private_key acc_c) = Inr [0xAB, 0x01]"
    by (simp add: demo_env_def)
  have h9: "http demo_env
        ([] @ [eligibility_query acc_c, registration_query acc_c,
               line_to_register acc_c (JStr ''1500''),
               SignMessage (full_message (address acc_c) (JStr ''1500'')) (private_key acc_c)])
        (submission acc_c (hex [0xAB, 0x01]) (JStr ''1500'')) = Inr demo_accepted"
    by (simp add: demo_env_def submission_def)
  have h10: "subscript demo_accepted [K ''validationResult'', K ''success''] = Inr (JBool True)"
    by (simp add: demo_defs)
  note t = submission_format [of acc_c demo_env "[]" "[0xAB, 0x01]" "JStr ''1500''"
      demo_eligible "JBool True" "JObj [(''message'', JStr ''Registration not found'')]"
      "JStr ''Registration not found''" demo_accepted "JBool True"]
  from t have "check_eligible_body demo_env acc_c [] =
        (Inr (), [] @ [eligibility_query acc_c, registration_query acc_c,
                  line_to_register acc_c (JStr ''1500''),
                  SignMessage (full_message (address acc_c) (JStr ''1500'')) (private_key acc_c),
                  submission acc_c (hex [0xAB, 0x01]) (JStr ''1500''),
                  if truthy (JBool True) then line_registered acc_c else line_rejected acc_c])"
    using h1 h2 h3 h4 h5 h6 h7 h8 h9 h10 by blast
  with p m s h1 h2 h3 h4 h5 h6 h7 h8 h9 h10 show ?thesis by blast
qed

text \<open>
  C10. A task started with a proxy string \<open>p\<close> sends every request it makes, in every
  attempt, through \<open>http://p\<close>, the string with \<open>http://\<close> put before it whatever it
  holds; a task started without a proxy sends every request without one.
\<close>

theorem proxy_routing:
  "list_all (\<lambda>ev. is_http ev \<longrightarrow>
       proxy_of ev = (case prx of None \<Rightarrow> None | Some p \<Rightarrow> Some (''http://'' @ p)))
     (emitted (start_work env (secret, prx) n) w)"
proof (cases "init env secret prx n")
  case (Inl e)
  then show ?thesis by (simp add: start_work_def emitted_def)
next
  case (Inr self)
  let ?P = "\<lambda>ev. is_http ev \<longrightarrow> proxy_of ev = proxy self"
  from Inr have prx: "proxy self = (case prx of None \<Rightarrow> None | Some p \<Rightarrow> Some (''http://'' @ p))"
    by (auto simp: init_def split: sum.splits)
  have "emits ?P (check_eligible_body env self)"
    by (rule emits_body) (simp add: attempt_traces_def Let_def event_defs)
  then have "emits ?P (check_eligible env self)"
    by (rule emits_check_eligible) (simp_all add: failure_line_def)
  then have a: "list_all ?P (emitted (check_eligible env self) w)"
    by (rule emits_emitted)
  obtain r w' where c: "check_eligible env self w = (Inr r, w')"
    using check_eligible_never_raises by blast
  with Inr have "emitted (start_work env (secret, prx) n) w = emitted (check_eligible env self) w"
    by (simp add: start_work_def emitted_def)
  with a prx show ?thesis by simp
qed

theorem proxy_routing_witness:
  "filter is_http (emitted (start_work demo_env (''key-c'', Some ''10.0.0.1:8080'') 3) []) =
     [Get url_check_eligibility [(''address'', ''0xC'')] (Some ''http://10.0.0.1:8080''),
      Get url_get_registration [(''address'', ''0xC'')] (Some ''http://10.0.0.1:8080''),
      Post url_save_registration (registration_json acc_c ''ab01'' (JStr ''1500''))
        (Some ''http://10.0.0.1:8080'')]
   \<and> map proxy_of
        (filter is_http (emitted (start_work demo_env (''key-c'', Some ''10.0.0.1:8080'') 3) [])) =
     [Some ''http://10.0.0.1:8080'', Some ''http://10.0.0.1:8080'',
      Some ''http://10.0.0.1:8080'']"
proof -
  have "filter is_http (emitted (start_work demo_env (''key-c'', Some ''10.0.0.1:8080'') 3) []) =
     [Get url_check_eligibility [(''address'', ''0xC'')] (Some ''http://10.0.0.1:8080''),
      Get url_get_registration [(''address'', ''0xC'')] (Some ''http://10.0.0.1:8080''),
      Post url_save_registration (registration_json acc_c ''ab01'' (JStr ''1500''))
        (Some ''http://10.0.0.1:8080'')]"
    by (simp add: emitted_def demo_work_c event_defs acc_c_def)
  then show ?thesis
    using proxy_routing [of "Some ''10.0.0.1:8080''" demo_env "''key-c''" 3 "[]"]
    by simp
qed

subsection \<open>The signed message\<close>

text \<open>
  C6. For an account built from a key, the message handed to the signing library has
  the domain \<open>{name: Hyperlane, version: 1}\<close>, the five fields of the \<open>Message\<close> type
  (eligibleAddress string, chainId uint256, amount string, receivingAddress string,
  tokenType string), and a payload whose eligibleAddress and receivingAddress are the
  address derived from the key, whose chainId is the string \<open>10\<close>, whose tokenType is
  \<open>HYPER\<close> and whose amount is the amount passed in.
\<close>

theorem typed_message_contents:
  assumes "init env secret prx n = Inr self"
  shows "private_key self = secret \<and> from_key env secret = Inr (address self)
       \<and> snd (create_message env self amount w) =
           w @ [SignMessage (full_message (address self) amount) secret]
       \<and> subscript (full_message (address self) amount) [K ''domain''] =
           Inr (JObj [(''name'', JStr ''Hyperlane''), (''version'', JStr ''1'')])
       \<and> subscript (full_message (address self) amount) [K ''types'', K ''Message''] =
           Inr (JArr [
             JObj [(''name'', JStr ''eligibleAddress''), (''type'', JStr ''string'')],
             JObj [(''name'', JStr ''chainId''), (''type'', JStr ''uint256'')],
             JObj [(''name'', JStr ''amount''), (''type'', JStr ''string'')],
             JObj [(''name'', JStr ''receivingAddress''), (''type'', JStr ''string'')],
             JObj [(''name'', JStr ''tokenType''), (''type'', JStr ''string'')]])
       \<and> subscript (full_message (address self) amount) [K ''message''] =
           Inr (JObj [
             (''eligibleAddress'', JStr (address self)),
             (''chainId'', JStr ''10''),
             (''amount'', amount),
             (''receivingAddress'', JStr (address self)),
             (''tokenType'', JStr ''HYPER'')])"
proof -
  from assms have "private_key self = secret" and "from_key env secret = Inr (address self)"
    by (auto simp: init_def split: sum.splits)
  moreover have "snd (create_message env self amount w) =
           w @ [SignMessage (full_message (address self) amount) (private_key self)]"
    by (simp add: create_message_def Let_def)
  ultimately show ?thesis
    by (simp add: full_message_def type_field_def)
qed

theorem typed_message_contents_witness:
  "init demo_env ''key-c'' (Some ''10.0.0.1:8080'') 3 = Inr acc_c
   \<and> subscript (full_message (address acc_c) (JStr ''1500'')) [K ''message''] =
       Inr (JObj [
         (''eligibleAddress'', JStr ''0xC''),
         (''chainId'', JStr ''10''),
         (''amount'', JStr ''1500''),
         (''receivingAddress'', JStr ''0xC''),
         (''tokenType'', JStr ''HYPER'')])"
proof -
  have h: "init demo_env ''key-c'' (Some ''10.0.0.1:8080'') 3 = Inr acc_c"
    by (simp add: init_def demo_defs)
  have a: "address acc_c = ''0xC''" by (simp add: acc_c_def)
  show ?thesis
    using typed_message_contents [OF h, of "JStr ''1500''" "[]"] h a by simp
qed

subsection \<open>The retry decorator\<close>

text \<open>The loop of the decorator with three rounds, written out.\<close>

lemma check_eligible_unrolled:
  "check_eligible env self w0 =
     (case check_eligible_body env self w0 of
        (Inr v, w1) \<Rightarrow> (Inr (RetFunc v), w1)
      | (Inl e1, w1) \<Rightarrow>
          (case check_eligible_body env self (w1 @ [failure_line e1, Sleep 2]) of
             (Inr v, w2) \<Rightarrow> (Inr (RetFunc v), w2)
           | (Inl e2, w2) \<Rightarrow>
               (case check_eligible_body env self (w2 @ [failure_line e2, Sleep 2]) of
                  (Inr v, w3) \<Rightarrow> (Inr (RetFunc v), w3)
                | (Inl e3, w3) \<Rightarrow> (Inr RetZero, w3 @ [failure_line e3]))))"
  by (simp add: check_eligible_def async_error_handler_def upt_0_3 failure_line_def Let_def
           split: prod.splits sum.splits)

lemma body_no_retry_event:
  "check_eligible_body env self w = (r, w') \<Longrightarrow>
   \<exists>evs. w' = w @ evs \<and> filter is_retry_event evs = []"
proof -
  assume a: "check_eligible_body env self w = (r, w')"
  have "emits (\<lambda>ev. \<not> is_retry_event ev) (check_eligible_body env self)"
    by (rule emits_body) (simp add: attempt_traces_def Let_def event_defs)
  from emitsD [OF this, of w] a show ?thesis
    by (auto simp: list_all_iff filter_empty_conv)
qed

text \<open>Runs against the failing connections.\<close>

lemma flaky_1:
  "check_eligible_body flaky_env acc_a [] =
     (Inl (ClientError ''timeout''), [eligibility_query acc_a])"
  by (simp add: run_defs flaky_env_def demo_env_def eligibility_query_def)

lemma flaky_2:
  "check_eligible_body flaky_env acc_a
     ([eligibility_query acc_a] @ [failure_line (ClientError ''timeout''), Sleep 2]) =
     (Inl (ClientError ''timeout''),
      [eligibility_query acc_a, failure_line (ClientError ''timeout''), Sleep 2,
       eligibility_query acc_a])"
  by (simp add: run_defs flaky_env_def demo_env_def eligibility_query_def failure_line_def)

lemma flaky_3:
  "check_eligible_body flaky_env acc_a
     ([eligibility_query acc_a, failure_line (ClientError ''timeout''), Sleep 2,
       eligibility_query acc_a] @ [failure_line (ClientError ''timeout''), Sleep 2]) =
     (Inr (),
      [eligibility_query acc_a, failure_line (ClientError ''timeout''), Sleep 2,
       eligibility_query acc_a, failure_line (ClientError ''timeout''), Sleep 2,
       eligibility_query acc_a, line_not_eligible acc_a])"
  by (simp add: run_defs flaky_env_def demo_defs event_defs failure_line_def)

lemma down_any:
  "check_eligible_body down_env acc_a w = (Inl (ClientError ''timeout''), w @ [eligibility_query acc_a])"
  by (simp add: run_defs down_env_def demo_env_def eligibility_query_def)

text \<open>
  C2. When the first and the second attempt raise, each failure is logged and followed
  by a sleep of 2; the decorated call then ends as the third attempt ends: with its
  value and its trace if it returns, so that exactly two failure lines and two sleeps
  of the decorator precede it, and with the value 0 after a third failure line (and no
  further sleep or attempt) if it raises. The decorated call never raises.
\<close>

theorem retry_policy:
  "(check_eligible_body env self w0 = (Inl e1, w1)
    \<and> check_eligible_body env self (w1 @ [failure_line e1, Sleep 2]) = (Inl e2, w2)
    \<and> check_eligible_body env self (w2 @ [failure_line e2, Sleep 2]) = (r3, w3)
    \<longrightarrow> check_eligible env self w0 =
          (case r3 of Inr v \<Rightarrow> (Inr (RetFunc v), w3)
                    | Inl e3 \<Rightarrow> (Inr RetZero, w3 @ [failure_line e3]))
        \<and> filter is_retry_event (drop (length w0) w3) =
            [failure_line e1, Sleep 2, failure_line e2, Sleep 2])
   \<and> (\<exists>r w'. check_eligible env self w = (Inr r, w'))"
proof (intro conjI impI)
  assume a: "check_eligible_body env self w0 = (Inl e1, w1)
    \<and> check_eligible_body env self (w1 @ [failure_line e1, Sleep 2]) = (Inl e2, w2)
    \<and> check_eligible_body env self (w2 @ [failure_line e2, Sleep 2]) = (r3, w3)"
  then show "check_eligible env self w0 =
          (case r3 of Inr v \<Rightarrow> (Inr (RetFunc v), w3)
                    | Inl e3 \<Rightarrow> (Inr RetZero, w3 @ [failure_line e3]))"
    by (simp add: check_eligible_unrolled split: sum.splits)
  from a obtain evs1 where 1: "w1 = w0 @ evs1" "filter is_retry_event evs1 = []"
    using body_no_retry_event by blast
  from a obtain evs2 where 2: "w2 = (w1 @ [failure_line e1, Sleep 2]) @ evs2"
    "filter is_retry_event evs2 = []"
    using body_no_retry_event by blast
  from a obtain evs3 where 3: "w3 = (w2 @ [failure_line e2, Sleep 2]) @ evs3"
    "filter is_retry_event evs3 = []"
    using body_no_retry_event by blast
  from 1 2 3 show "filter is_retry_event (drop (length w0) w3) =
            [failure_line e1, Sleep 2, failure_line e2, Sleep 2]"
    by (simp add: failure_line_def)
next
  show "\<exists>r w'. check_eligible env self w = (Inr r, w')"
    by (rule check_eligible_never_raises)
qed

theorem retry_policy_witness:
  "check_eligible_body flaky_env acc_a [] =
     (Inl (ClientError ''timeout''), [eligibility_query acc_a])
   \<and> check_eligible flaky_env acc_a [] =
     (Inr (RetFunc ()),
      [eligibility_query acc_a, failure_line (ClientError ''timeout''), Sleep 2,
       eligibility_query acc_a, failure_line (ClientError ''timeout''), Sleep 2,
       eligibility_query acc_a, line_not_eligible acc_a])
   \<and> check_eligible_body down_env acc_a [] =
     (Inl (ClientError ''timeout''), [eligibility_query acc_a])
   \<and> check_eligible down_env acc_a [] =
     (Inr RetZero,
      [eligibility_query acc_a, failure_line (ClientError ''timeout''), Sleep 2,
       eligibility_query acc_a, failure_line (ClientError ''timeout''), Sleep 2,
       eligibility_query acc_a, failure_line (ClientError ''timeout'')])"
proof -
  let ?e = "ClientError ''timeout''"
  let ?q = "eligibility_query acc_a"
  have "check_eligible flaky_env acc_a [] =
     (Inr (RetFunc ()),
      [?q, failure_line ?e, Sleep 2, ?q, failure_line ?e, Sleep 2, ?q, line_not_eligible acc_a])"
    using retry_policy [of flaky_env acc_a "[]" ?e "[?q]" ?e
        "[?q, failure_line ?e, Sleep 2, ?q]" "Inr ()"
        "[?q, failure_line ?e, Sleep 2, ?q, failure_line ?e, Sleep 2, ?q, line_not_eligible acc_a]"]
      flaky_1 flaky_2 flaky_3
    by simp
  moreover have "check_eligible down_env acc_a [] =
     (Inr RetZero,
      [?q, failure_line ?e, Sleep 2, ?q, failure_line ?e, Sleep 2, ?q, failure_line ?e])"
    using retry_policy [of down_env acc_a "[]" ?e "[?q]" ?e
        "[?q, failure_line ?e, Sleep 2, ?q]" "Inl ?e"
        "[?q, failure_line ?e, Sleep 2, ?q, failure_line ?e, Sleep 2, ?q]"]
      down_any [of "[]"] down_any [of "[?q, failure_line ?e, Sleep 2]"]
      down_any [of "[?q, failure_line ?e, Sleep 2, ?q, failure_line ?e, Sleep 2]"]
    by simp
  ultimately show ?thesis using flaky_1 down_any [of "[]"] by simp
qed


subsection \<open>The batch\<close>

text \<open>
  The exception of the constructor is not inside the \<open>try\<close> of \<open>start_work\<close>: it
  leaves the task as it is, with nothing logged.
\<close>

lemma start_work_malformed_key:
  "from_key env secret = Inl e \<Longrightarrow> start_work env (secret, prx) n w = (Inl e, w)"
  by (simp add: start_work_def init_def)

lemma start_work_returns:
  "from_key env secret = Inr addr \<Longrightarrow> \<exists>w'. start_work env (secret, prx) n w = (Inr (), w')"
proof -
  assume "from_key env secret = Inr addr"
  then obtain self where i: "init env secret prx n = Inr self"
    by (simp add: init_def)
  obtain r w' where "check_eligible env self w = (Inr r, w')"
    using check_eligible_never_raises by blast
  with i show ?thesis by (simp add: start_work_def)
qed

lemma run_tasks_returns:
  "list_all (\<lambda>a. \<exists>addr. from_key env (fst a) = Inr addr) accounts \<Longrightarrow>
   \<exists>w'. run_tasks env idx accounts w = (Inr (), w')"
proof (induction accounts arbitrary: idx w)
  case Nil
  show ?case by simp
next
  case (Cons a rest)
  then obtain addr where "from_key env (fst a) = Inr addr" by auto
  from start_work_returns [OF this, of "snd a" idx w]
  obtain w1 where "start_work env a idx w = (Inr (), w1)" by auto
  moreover from Cons obtain w2 where "run_tasks env (Suc idx) rest w1 = (Inr (), w2)"
    by fastforce
  ultimately show ?case by simp
qed

text \<open>When every key of the list is a key, the script reaches the completion banner.\<close>

lemma script_completes:
  assumes "list_all (\<lambda>a. \<exists>addr. from_key env (fst a) = Inr addr) accounts"
  shows "\<exists>w'. script env accounts w = (Inr (), w') \<and> completion_banner \<in> set w'"
proof -
  from run_tasks_returns [OF assms] obtain w' where
    "main env accounts
       (w @ [Log INFO [Lit ''My channel: https://t.me/CryptoMindYep''],
             Log INFO [Lit ''Total wallets: '', IntV (length accounts), Lit [CHR 0x0A]]]) =
     (Inr (), w')"
    unfolding main_def by blast
  then show ?thesis
    by (simp add: script_def m_bind_def logger_def)
qed

lemma demo_work_a:
  "start_work demo_env (''key-a'', None) (Suc 0) w =
     (Inr (), w @ [eligibility_query acc_a, line_not_eligible acc_a])"
proof -
  have i: "init demo_env ''key-a'' None (Suc 0) = Inr acc_a"
    by (simp add: init_def demo_defs)
  have "check_eligible_body demo_env acc_a w =
          (Inr (), w @ [eligibility_query acc_a, line_not_eligible acc_a])"
    by (simp add: run_defs event_defs demo_defs)
  from check_eligible_returns [OF this] i show ?thesis
    by (simp add: start_work_def)
qed

text \<open>
  The run of the specification's scenario: an account that is not eligible, one that is
  registered, one that registers; each is processed once and the script completes.
\<close>

lemma scenario:
  "script demo_env [(''key-a'', None), (''key-b'', None), (''key-c'', Some ''10.0.0.1:8080'')] [] =
     (Inr (),
      [Log INFO [Lit ''My channel: https://t.me/CryptoMindYep''],
       Log INFO [Lit ''Total wallets: '', IntV 3, Lit [CHR 0x0A]],
       eligibility_query acc_a, line_not_eligible acc_a,
       eligibility_query acc_b, registration_query acc_b,
       line_already_registered acc_b (JStr ''1500''),
       eligibility_query acc_c, registration_query acc_c,
       line_to_register acc_c (JStr ''1500''),
       SignMessage (full_message (address acc_c) (JStr ''1500'')) (private_key acc_c),
       submission acc_c ''ab01'' (JStr ''1500''),
       line_registered acc_c,
       completion_banner,
       Log INFO [Lit ''Thx for donat: 0x5AfFeb5fcD283816ab4e926F380F9D0CBBA04d0e'']])"
proof -
  have b: "start_work demo_env (''key-b'', None) (Suc (Suc 0)) w =
     (Inr (), w @ [eligibility_query acc_b, registration_query acc_b,
                   line_already_registered acc_b (JStr ''1500'')])" for w
  proof -
    have i: "init demo_env ''key-b'' None (Suc (Suc 0)) = Inr acc_b"
      by (simp add: init_def demo_defs)
    have "check_eligible_body demo_env acc_b w =
          (Inr (), w @ [eligibility_query acc_b, registration_query acc_b,
                        line_already_registered acc_b (JStr ''1500'')])"
      by (simp add: run_defs event_defs demo_defs)
    from check_eligible_returns [OF this] i show ?thesis
      by (simp add: start_work_def)
  qed
  have c: "start_work demo_env (''key-c'', Some ''10.0.0.1:8080'') (Suc (Suc (Suc 0))) w =
     (Inr (), w @ [eligibility_query acc_c, registration_query acc_c,
               line_to_register acc_c (JStr ''1500''),
               SignMessage (full_message (address acc_c) (JStr ''1500'')) (private_key acc_c),
               submission acc_c ''ab01'' (JStr ''1500''),
               line_registered acc_c])" for w
  proof -
    have i: "init demo_env ''key-c'' (Some ''10.0.0.1:8080'') (Suc (Suc (Suc 0))) = Inr acc_c"
      by (simp add: init_def demo_defs)
    have "check_eligible_body demo_env acc_c w =
          (Inr (), w @ [eligibility_query acc_c, registration_query acc_c,
               line_to_register acc_c (JStr ''1500''),
               SignMessage (full_message (address acc_c) (JStr ''1500'')) (private_key acc_c),
               submission acc_c ''ab01'' (JStr ''1500''),
               line_registered acc_c])"
      by (simp add: run_defs event_defs demo_defs hex_demo)
    from check_eligible_returns [OF this] i show ?thesis
      by (simp add: start_work_def)
  qed
  show ?thesis
    by (simp add: script_def main_def m_bind_def logger_def demo_work_a b c)
qed

text \<open>
  After a task that had waited for the semaphore raises, three more tasks can be let in:
  the third of them still makes its request, a fourth is cancelled while it waits.
\<close>

lemma cancelled_after_three:
  "cancelled demo_env 3 3 [(''x'', None), (''y'', None), (''key-c'', None), (''key-b'', None)] w =
     w @ [Get url_check_eligibility [(''address'', ''0xC'')] None]
   \<and> cancelled demo_env 3 3 [(''x'', None), (''y'', None), (''z'', None), (''key-c'', None)] w = w
   \<and> cancelled demo_env 3 3 [(''key-c'', None), (''key-b'', None)] w =
     w @ [Get url_check_eligibility [(''address'', ''0xC'')] None]"
  by (simp add: numeral_3_eq_3 init_def demo_env_def demo_from_key_def)

text \<open>
  C3. The specification has every exception of an account caught and logged with the
  number of the account, and every run ending with the completion banner. On the list
  with a malformed key in the second place, the task of the second account raises the
  \<open>ValueError\<close> of the key derivation and logs nothing; the task of the third account
  is let in, makes its first request and is cancelled before the reply; the script
  ends with the exception of the second account and the completion banner is not
  printed.
\<close>

theorem malformed_key_aborts_batch:
  "start_work demo_env (''not-a-key'', None) 2 w = (Inl (ValueError ''not a private key''), w)
   \<and> script demo_env [(''key-a'', None), (''not-a-key'', None), (''key-c'', None)] [] =
       (Inl (ValueError ''not a private key''),
        [Log INFO [Lit ''My channel: https://t.me/CryptoMindYep''],
         Log INFO [Lit ''Total wallets: '', IntV 3, Lit [CHR 0x0A]],
         eligibility_query acc_a, line_not_eligible acc_a,
         Get url_check_eligibility [(''address'', ''0xC'')] None])
   \<and> completion_banner \<notin> set (snd (script demo_env
         [(''key-a'', None), (''not-a-key'', None), (''key-c'', None)] []))"
proof -
  have k: "from_key demo_env ''not-a-key'' = Inl (ValueError ''not a private key'')"
    by (simp add: demo_env_def demo_from_key_def)
  have c: "cancelled demo_env 3 (Suc (Suc (Suc 0))) [(''key-c'', None)] v =
             v @ [Get url_check_eligibility [(''address'', ''0xC'')] None]" for v
    by (simp add: numeral_3_eq_3 init_def demo_env_def demo_from_key_def)
  have s: "script demo_env [(''key-a'', None), (''not-a-key'', None), (''key-c'', None)] [] =
       (Inl (ValueError ''not a private key''),
        [Log INFO [Lit ''My channel: https://t.me/CryptoMindYep''],
         Log INFO [Lit ''Total wallets: '', IntV 3, Lit [CHR 0x0A]],
         eligibility_query acc_a, line_not_eligible acc_a,
         Get url_check_eligibility [(''address'', ''0xC'')] None])"
    by (simp add: script_def main_def m_bind_def logger_def demo_work_a
          start_work_malformed_key [OF k] c)
  show ?thesis
    by (simp add: s start_work_malformed_key [OF k])
       (simp add: completion_banner_def event_defs)
qed

text \<open>When the first key is the malformed one, the second task starts in the same turn.\<close>

lemma malformed_first_key:
  "main demo_env [(''not-a-key'', None), (''key-b'', None)] [] =
     (Inl (ValueError ''not a private key''),
      [Get url_check_eligibility [(''address'', ''0xB'')] None])"
proof -
  have k: "from_key demo_env ''not-a-key'' = Inl (ValueError ''not a private key'')"
    by (simp add: demo_env_def demo_from_key_def)
  have c: "cancelled demo_env (Suc 0) (Suc (Suc 0)) [(''key-b'', None)] v =
             v @ [Get url_check_eligibility [(''address'', ''0xB'')] None]" for v
    by (simp add: init_def demo_env_def demo_from_key_def)
  show ?thesis
    by (simp add: main_def start_work_malformed_key [OF k] c del: cancelled.simps)
qed

subsection \<open>The semaphore\<close>

text \<open>A move changes one task; the free slots and the tasks inside the block add up as before.\<close>

lemma count_update:
  "i < length xs \<Longrightarrow>
   length (filter P (xs[i := y])) + (if P (xs ! i) then 1 else 0) =
   length (filter P xs) + (if P y then 1 else 0)"
proof (induction xs arbitrary: i)
  case Nil
  then show ?case by simp
next
  case (Cons x xs)
  then show ?case by (cases i) auto
qed

lemma fire_keeps_total:
  "fire m g = Some g' \<Longrightarrow>
   slots g' + length (filter holds (phases g')) = slots g + length (filter holds (phases g))
   \<and> length (phases g') = length (phases g)"
proof (cases m)
  case (Enter i)
  assume "fire m g = Some g'"
  with Enter count_update [of i "phases g" holds Holding] show ?thesis
    by (auto split: if_splits)
next
  case (Send i)
  assume "fire m g = Some g'"
  with Send count_update [of i "phases g" holds InCall] show ?thesis
    by (auto split: if_splits)
next
  case (Receive i)
  assume "fire m g = Some g'"
  with Receive count_update [of i "phases g" holds Holding] show ?thesis
    by (auto split: if_splits)
next
  case (Leave i p)
  assume "fire m g = Some g'"
  with Leave count_update [of i "phases g" holds "Exited p"] show ?thesis
    by (auto split: if_splits)
next
  case (CancelWaiting i)
  assume "fire m g = Some g'"
  with CancelWaiting count_update [of i "phases g" holds "Exited Cancelled"] show ?thesis
    by (auto split: if_splits)
next
  case (CancelCall i)
  assume "fire m g = Some g'"
  with CancelCall count_update [of i "phases g" holds "Exited Cancelled"] show ?thesis
    by (auto split: if_splits)
qed

lemma run_keeps_total:
  "run ms g = Some g' \<Longrightarrow>
   slots g' + length (filter holds (phases g')) = slots g + length (filter holds (phases g))
   \<and> length (phases g') = length (phases g)"
proof (induction ms arbitrary: g)
  case Nil
  then show ?case by simp
next
  case (Cons m ms)
  then obtain g1 where f: "fire m g = Some g1" and r: "run ms g1 = Some g'"
    by (auto split: option.splits)
  from fire_keeps_total [OF f] Cons.IH [OF r] show ?case by simp
qed

lemma two_holders:
  assumes "i < length xs" "j < length xs" "i \<noteq> j" "P (xs ! i)" "P (xs ! j)"
  shows "2 \<le> length (filter P xs)"
proof -
  have "{i, j} \<subseteq> {k. k < length xs \<and> P (xs ! k)}"
    using assms by auto
  then have "card {i, j} \<le> card {k. k < length xs \<and> P (xs ! k)}"
    by (intro card_mono) auto
  with assms(3) show ?thesis
    by (simp add: length_filter_conv_card)
qed

text \<open>Schedules for two tasks and one slot; the second task cannot enter while the first is inside.\<close>

lemma demo_gate_in_call:
  "run [Enter 0, Send 0] (gate_init 1 2) = Some \<lparr> slots = 0, phases = [InCall, Pending] \<rparr>"
  by (simp add: gate_init_def numeral_2_eq_2)

lemma demo_gate_blocked: "run [Enter 0, Send 0, Enter 1] (gate_init 1 2) = None"
  by (simp add: gate_init_def numeral_2_eq_2)

lemma demo_gate_done:
  "run [Enter 0, Leave 0 Raised, Enter 1, Send 1, Receive 1, Leave 1 Returned] (gate_init 1 2) =
     Some \<lparr> slots = 1, phases = [Exited Raised, Exited Returned] \<rparr>"
  by (simp add: gate_init_def numeral_2_eq_2)

text \<open>
  C9. In every state a schedule can reach under a semaphore of \<open>bound\<close> slots, at most
  \<open>bound\<close> tasks are inside the block, and the free slots and the tasks inside add up
  to \<open>bound\<close>: a task that left the block, by whatever path, has given its slot back,
  and when no task is inside every slot is free. With one slot, two tasks are never
  inside the block together; in particular two tasks never await a request at the
  same time.
\<close>

theorem admission_bound:
  assumes "run ms (gate_init bound n) = Some g"
  shows "length (filter holds (phases g)) \<le> bound
       \<and> slots g + length (filter holds (phases g)) = bound
       \<and> (bound = 1 \<longrightarrow>
            (\<forall>i<n. \<forall>j<n. holds (phases g ! i) \<and> holds (phases g ! j) \<longrightarrow> i = j))
       \<and> (bound = 1 \<longrightarrow>
            (\<forall>i<n. \<forall>j<n. phases g ! i = InCall \<and> phases g ! j = InCall \<longrightarrow> i = j))
       \<and> ((\<forall>ph \<in> set (phases g). \<not> holds ph) \<longrightarrow> slots g = bound)"
proof -
  from run_keeps_total [OF assms] have
    total: "slots g + length (filter holds (phases g)) = bound" and len: "length (phases g) = n"
    by (simp_all add: gate_init_def)
  have one: "i = j" if "bound = 1" "i < n" "j < n" "holds (phases g ! i)" "holds (phases g ! j)"
    for i j
  proof (rule ccontr)
    assume "i \<noteq> j"
    with that len two_holders [of i "phases g" j holds]
    have "2 \<le> length (filter holds (phases g))" by simp
    with total that(1) show False by simp
  qed
  have free: "slots g = bound" if "\<forall>ph \<in> set (phases g). \<not> holds ph"
  proof -
    from that have "filter holds (phases g) = []" by (simp add: filter_empty_conv)
    with total show ?thesis by simp
  qed
  from total have "length (filter holds (phases g)) \<le> bound" by simp
  moreover have "\<forall>i<n. \<forall>j<n. phases g ! i = InCall \<and> phases g ! j = InCall \<longrightarrow> i = j"
    if "bound = 1"
    using one [OF that] by simp
  ultimately show ?thesis using total one free by blast
qed

theorem admission_bound_witness:
  "run [Enter 0, Send 0] (gate_init 1 2) = Some \<lparr> slots = 0, phases = [InCall, Pending] \<rparr>
   \<and> length (filter holds (phases \<lparr> slots = 0, phases = [InCall, Pending] \<rparr>)) \<le> 1
   \<and> slots \<lparr> slots = 0, phases = [InCall, Pending] \<rparr>
       + length (filter holds (phases \<lparr> slots = 0, phases = [InCall, Pending] \<rparr>)) = 1
   \<and> run [Enter 0, Leave 0 Raised, Enter 1, Send 1, Receive 1, Leave 1 Returned] (gate_init 1 2) =
       Some \<lparr> slots = 1, phases = [Exited Raised, Exited Returned] \<rparr>
   \<and> filter holds (phases \<lparr> slots = 1, phases = [Exited Raised, Exited Returned] \<rparr>) = []
   \<and> slots \<lparr> slots = 1, phases = [Exited Raised, Exited Returned] \<rparr> = 1"
  using admission_bound [OF demo_gate_in_call] admission_bound [OF demo_gate_done]
    demo_gate_in_call demo_gate_done
  by simp


end
